theory Spec2Isabelle
  imports Complex_Main "HOL-Library.Word" "HOL-Library.Multiset"
begin

unbundle bit_operations_syntax

section \<open>JavaScript values\<close>

text \<open>
  The flag model (\<^verbatim>\<open>flag.model.js\<close>, stored in the second half of
  \<^verbatim>\<open>src/backend/src/models/evaluation.model.js\<close>) and the evaluation service are
  JavaScript. A string is a sequence of UTF-16 code units, which is what \<^verbatim>\<open>str.length\<close>
  counts and \<^verbatim>\<open>str.charCodeAt(i)\<close> reads.
\<close>

type_synonym js_string = "16 word list"

text \<open>String literals: one code unit per ASCII character.\<close>

definition ascii :: "string \<Rightarrow> js_string" where
  "ascii s = map of_char s"

text \<open>
  The values a context attribute, a rule payload or a flag value can hold: what
  \<^verbatim>\<open>JSON.parse\<close> of a request body and a stored document give. A number is a finite
  double, read as the rational it denotes (no \<^verbatim>\<open>NaN\<close> or infinity: JSON has none, and
  the program only compares numbers and subtracts priorities, whose sign is exact in IEEE
  arithmetic). A plain object carries its reference, since \<^verbatim>\<open>===\<close> on objects compares
  identity, and its own entries, whose values are again such values (never functions);
  its prototype is \<^verbatim>\<open>Object.prototype\<close>. An array carries its reference and its
  elements.
\<close>

datatype jsval =
    Undefined
  | Null
  | Bool bool
  | Num rat
  | Str js_string
  | Obj nat "(js_string \<times> jsval) list"
  | Arr nat "jsval list"

text \<open>ToBoolean: what \<^verbatim>\<open>!v\<close>, \<^verbatim>\<open>v || w\<close> and \<^verbatim>\<open>v ? a : b\<close> test.\<close>

fun truthy :: "jsval \<Rightarrow> bool" where
  "truthy Undefined = False"
| "truthy Null = False"
| "truthy (Bool b) = b"
| "truthy (Num n) = (n \<noteq> 0)"
| "truthy (Str s) = (s \<noteq> [])"
| "truthy (Obj r es) = True"
| "truthy (Arr r vs) = True"

text \<open>Strict equality \<^verbatim>\<open>===\<close>: no coercion; objects are equal when they are the same object.\<close>

fun strict_eq :: "jsval \<Rightarrow> jsval \<Rightarrow> bool" where
  "strict_eq Undefined Undefined = True"
| "strict_eq Null Null = True"
| "strict_eq (Bool a) (Bool b) = (a = b)"
| "strict_eq (Num a) (Num b) = (a = b)"
| "strict_eq (Str a) (Str b) = (a = b)"
| "strict_eq (Obj r es) (Obj r' es') = (r = r')"
| "strict_eq (Arr r vs) (Arr r' vs') = (r = r')"
| "strict_eq v w = False"

text \<open>
  An evaluation context is an object, given by its own entries (the controllers build it
  or take it from the request body and write \<^verbatim>\<open>clientIP\<close> into it, which throws for
  \<^verbatim>\<open>null\<close> before \<^verbatim>\<open>evaluate\<close> is reached). Reading a property that is not there
  gives \<^verbatim>\<open>undefined\<close>. (A name inherited from
  \<^verbatim>\<open>Object.prototype\<close>, such as \<^verbatim>\<open>constructor\<close>, reads as a function of the
  runtime; no stored rule value is that function, so for the segment test below it behaves
  as a missing attribute does.)
\<close>

type_synonym eval_context = "(js_string \<times> jsval) list"

definition js_get :: "eval_context \<Rightarrow> js_string \<Rightarrow> jsval" where
  "js_get obj k = (case map_of obj k of None \<Rightarrow> Undefined | Some v \<Rightarrow> v)"

subsection \<open>Errors\<close>

text \<open>
  What the code throws: the \<^verbatim>\<open>Error\<close> of \<^verbatim>\<open>evaluate\<close> for a missing environment
  (with the environment name and the flag key of its message), and the TypeError of the
  language for a value that has no primitive form or a property read on \<^verbatim>\<open>undefined\<close>.
\<close>

datatype error =
    EnvironmentNotFound js_string js_string
  | TypeError

subsection \<open>Conversions\<close>

text \<open>
  Two functions of the language runtime are not code of the repository and stay
  parameters: the digits \<^verbatim>\<open>Number.prototype.toString\<close> prints for a number that is not
  a safe integer, and the time value (milliseconds since the epoch, \<open>None\<close> for
  \<^verbatim>\<open>NaN\<close>) that \<^verbatim>\<open>Date.parse\<close> reads from a string. Every statement below holds for
  all values of the two.
\<close>

record js_runtime =
  NumberToString :: "rat \<Rightarrow> js_string"
  DateParse :: "js_string \<Rightarrow> int option"

text \<open>A safe integer prints as its decimal digits, with a minus sign when negative.\<close>

fun decimal :: "nat \<Rightarrow> js_string" where
  "decimal n =
     (if n < 10 then [word_of_nat (48 + n)]
      else decimal (n div 10) @ [word_of_nat (48 + n mod 10)])"

declare decimal.simps [simp del]

definition js_NumberToString :: "js_runtime \<Rightarrow> rat \<Rightarrow> js_string" where
  "js_NumberToString rt n =
     (if n = of_int \<lfloor>n\<rfloor> \<and> \<bar>n\<bar> \<le> 9007199254740992
      then (if n < 0 then ascii ''-'' @ decimal (nat (- \<lfloor>n\<rfloor>)) else decimal (nat \<lfloor>n\<rfloor>))
      else NumberToString rt n)"

text \<open>
  ToString after ToPrimitive, as \<^verbatim>\<open>v + s\<close> with a string \<open>s\<close> and \<^verbatim>\<open>new Date(v)\<close>
  apply it. For a plain object the conversion calls \<^verbatim>\<open>valueOf\<close> and \<^verbatim>\<open>toString\<close>:
  the inherited \<^verbatim>\<open>valueOf\<close> returns the object itself, the inherited \<^verbatim>\<open>toString\<close>
  returns \<^verbatim>\<open>[object Object]\<close>, and an own property of either name is a value that
  cannot be called and is skipped. So an object with an own \<^verbatim>\<open>toString\<close> property has
  no primitive form, and the conversion throws a TypeError. An array is converted by
  \<^verbatim>\<open>join\<close>: its elements' strings separated by commas, \<^verbatim>\<open>undefined\<close> and \<^verbatim>\<open>null\<close>
  giving the empty string.
\<close>

fun js_ToString :: "js_runtime \<Rightarrow> jsval \<Rightarrow> error + js_string"
  and js_join :: "js_runtime \<Rightarrow> jsval list \<Rightarrow> error + js_string" where
  "js_ToString rt Undefined = Inr (ascii ''undefined'')"
| "js_ToString rt Null = Inr (ascii ''null'')"
| "js_ToString rt (Bool b) = Inr (if b then ascii ''true'' else ascii ''false'')"
| "js_ToString rt (Num n) = Inr (js_NumberToString rt n)"
| "js_ToString rt (Str s) = Inr s"
| "js_ToString rt (Obj r es) =
     (if ascii ''toString'' \<in> fst ` set es then Inl TypeError
      else Inr (ascii ''[object Object]''))"
| "js_ToString rt (Arr r vs) = js_join rt vs"
| "js_join rt [] = Inr []"
| "js_join rt (v # vs) =
     (case (if v = Undefined \<or> v = Null then Inr [] else js_ToString rt v) of
        Inl e \<Rightarrow> Inl e
      | Inr s \<Rightarrow>
          if vs = [] then Inr s
          else (case js_join rt vs of
                  Inl e \<Rightarrow> Inl e
                | Inr t \<Rightarrow> Inr (s @ ascii '','' @ t)))"

text \<open>\<^verbatim>\<open>v + s\<close> with a string \<open>s\<close> on the right: concatenation, or the TypeError.\<close>

definition js_plus :: "js_runtime \<Rightarrow> jsval \<Rightarrow> js_string \<Rightarrow> error + js_string" where
  "js_plus rt v s = (case js_ToString rt v of Inl e \<Rightarrow> Inl e | Inr u \<Rightarrow> Inr (u @ s))"

text \<open>
  The time value of \<^verbatim>\<open>new Date(v)\<close>, \<open>None\<close> for an invalid date: the primitive form
  of \<open>v\<close> is parsed when it is a string and converted to a number otherwise, then
  clipped (truncated to an integer, invalid beyond 8.64e15 milliseconds).
\<close>

definition TimeClip :: "rat \<Rightarrow> int option" where
  "TimeClip t =
     (if \<bar>t\<bar> \<le> 8640000000000000 then Some (if 0 \<le> t then \<lfloor>t\<rfloor> else \<lceil>t\<rceil>) else None)"

definition js_NewDate :: "js_runtime \<Rightarrow> jsval \<Rightarrow> error + int option" where
  "js_NewDate rt v =
     (case v of
        Undefined \<Rightarrow> Inr None
      | Null \<Rightarrow> Inr (TimeClip 0)
      | Bool b \<Rightarrow> Inr (TimeClip (if b then 1 else 0))
      | Num n \<Rightarrow> Inr (TimeClip n)
      | Str s \<Rightarrow> Inr (DateParse rt s)
      | _ \<Rightarrow> (case js_ToString rt v of
                Inl e \<Rightarrow> Inl e
              | Inr s \<Rightarrow> Inr (DateParse rt s)))"

subsection \<open>32-bit integer operators\<close>

text \<open>
  \<^verbatim>\<open>x << n\<close> and \<^verbatim>\<open>x & y\<close> convert their operands to 32-bit two's complement
  integers (ToInt32) and give a signed 32-bit result; \<^verbatim>\<open>-\<close> and \<^verbatim>\<open>+\<close> are exact on the
  integers that occur (below \<open>2 ^ 53\<close> in size). \<^verbatim>\<open>a % b\<close> truncates: the result has the
  sign of \<open>a\<close>.
\<close>

definition js_shl :: "int \<Rightarrow> nat \<Rightarrow> int" where
  "js_shl x n = sint (push_bit (n mod 32) (word_of_int x :: 32 word))"

definition js_bitand :: "int \<Rightarrow> int \<Rightarrow> int" where
  "js_bitand x y = sint ((word_of_int x :: 32 word) AND word_of_int y)"

definition js_rem :: "int \<Rightarrow> int \<Rightarrow> int" where
  "js_rem a b = sgn a * (\<bar>a\<bar> mod \<bar>b\<bar>)"

definition charCodeAt :: "16 word \<Rightarrow> int" where
  "charCodeAt c = uint c"

section \<open>The bucketing hash of the PERCENTAGE branch\<close>

text \<open>
  \<^verbatim>\<open>
  let hash = 0;
  for (let i = 0; i < str.length; i++) {
    hash = ((hash << 5) - hash) + str.charCodeAt(i);
    hash = hash & hash; // Convert to 32bit integer
  }
  const normalizedHash = Math.abs(hash % 100);
  \<close>
\<close>

definition hash_step :: "int \<Rightarrow> 16 word \<Rightarrow> int" where
  "hash_step hash c =
     (let hash1 = (js_shl hash 5 - hash) + charCodeAt c
      in js_bitand hash1 hash1)"

definition hash_loop :: "js_string \<Rightarrow> int" where
  "hash_loop str = foldl hash_step 0 str"

definition normalizedHash :: "js_string \<Rightarrow> int" where
  "normalizedHash str = \<bar>js_rem (hash_loop str) 100\<bar>"

text \<open>
  The reference algorithm, from the words of the specification: the recurrence
  \<open>h = (h * 31 + codeUnit) mod 2 ^ 32\<close> read as a signed 32-bit integer, then
  \<open>abs h mod 100\<close>.
\<close>

definition spec_step :: "int \<Rightarrow> 16 word \<Rightarrow> int" where
  "spec_step h c =
     (let u = (h * 31 + uint c) mod 2 ^ 32
      in if u < 2 ^ 31 then u else u - 2 ^ 32)"

definition spec_bucket :: "js_string \<Rightarrow> int" where
  "spec_bucket s = \<bar>foldl spec_step 0 s\<bar> mod 100"

section \<open>Flags\<close>

datatype flag_type = BOOLEAN | STRING | NUMBER | JSON

text \<open>
  A rule has a \<^verbatim>\<open>type\<close>, a \<^verbatim>\<open>priority\<close> and a \<^verbatim>\<open>value\<close> whose shape the schema's
  validator fixes per type: a number for PERCENTAGE, a non-null object for USER\_SEGMENT
  (given by its \<^verbatim>\<open>Object.entries\<close>), an object with a \<^verbatim>\<open>startDate\<close> and possibly an
  \<^verbatim>\<open>endDate\<close> for SCHEDULED (\<open>Undefined\<close> when the field is missing), any value for
  DEFAULT. \<open>OTHER\<close> stands for a type string that is none of the four.
\<close>

datatype rule_config =
    PERCENTAGE rat
  | USER_SEGMENT "(js_string \<times> jsval) list"
  | SCHEDULED jsval jsval
  | DEFAULT jsval
  | OTHER

record rule =
  priority :: rat
  config :: rule_config

record variation =
  var_key :: js_string
  var_value :: jsval

text \<open>
  \<open>env_value\<close> is \<open>Undefined\<close> when the settings have no \<^verbatim>\<open>value\<close>;
  \<open>defaultVariation\<close> is \<open>None\<close> when the field is \<^verbatim>\<open>undefined\<close> or \<^verbatim>\<open>null\<close>.
\<close>

record env_settings =
  enabled :: bool
  rules :: "rule list"
  env_value :: jsval
  variations :: "variation list"
  defaultVariation :: "js_string option"

record flag =
  flag_key :: js_string
  flag_type :: flag_type
  environments :: "js_string \<rightharpoonup> env_settings"
  metrics_evaluations :: nat
  metrics_lastEvaluated :: "int option"

subsection \<open>getDefaultValue\<close>

text \<open>
  \<^verbatim>\<open>this.environments.get(environment)\<close> is \<^verbatim>\<open>undefined\<close> for a missing environment,
  and reading \<^verbatim>\<open>envSettings.value\<close> then throws a TypeError.
\<close>

definition getDefaultValue :: "flag \<Rightarrow> js_string \<Rightarrow> error + jsval" where
  "getDefaultValue flag environment =
     (case environments flag environment of
        None \<Rightarrow> Inl TypeError
      | Some envSettings \<Rightarrow>
          if flag_type flag = BOOLEAN then
            Inr (if env_value envSettings \<noteq> Undefined then env_value envSettings else Bool False)
          else if variations envSettings \<noteq> [] then
            (let defaultKey =
                   (case defaultVariation envSettings of
                      None \<Rightarrow> var_key (hd (variations envSettings))
                    | Some k \<Rightarrow> if k \<noteq> [] then k else var_key (hd (variations envSettings)));
                 variation = find (\<lambda>v. var_key v = defaultKey) (variations envSettings)
             in Inr (case variation of Some v \<Rightarrow> var_value v | None \<Rightarrow> Null))
          else
            Inr (if env_value envSettings \<noteq> Undefined then env_value envSettings else Null))"

subsection \<open>evaluateRule\<close>

record rule_result =
  matches :: bool
  rr_value :: jsval

text \<open>
  The USER\_SEGMENT loop over \<^verbatim>\<open>Object.entries(segmentValue)\<close>:
  \<^verbatim>\<open>if (!context[key] || context[key] !== value) { matches = false; break; }\<close>
\<close>

fun segment_loop :: "eval_context \<Rightarrow> (js_string \<times> jsval) list \<Rightarrow> bool" where
  "segment_loop context [] = True"
| "segment_loop context ((key, val) # rest) =
     (if \<not> truthy (js_get context key) \<or> \<not> strict_eq (js_get context key) val
      then False
      else segment_loop context rest)"

text \<open>
  \<open>now\<close> is the clock reading of \<^verbatim>\<open>new Date()\<close>, a parameter of the model: one
  evaluation passes the same reading to every rule. A comparison with an invalid date is
  false. \<open>end\<close> is \<^verbatim>\<open>null\<close> (here \<open>None\<close>) when \<^verbatim>\<open>endDate\<close> is falsy, and a Date
  object, which is always truthy, otherwise. The concatenation \<^verbatim>\<open>userId + this.key\<close>
  and the two \<^verbatim>\<open>new Date(...)\<close> can throw, and then the method throws.
\<close>

definition evaluateRule ::
  "js_runtime \<Rightarrow> int \<Rightarrow> flag \<Rightarrow> rule \<Rightarrow> eval_context \<Rightarrow> error + rule_result" where
  "evaluateRule rt now flag rule context =
     (case config rule of
        PERCENTAGE percentageValue \<Rightarrow>
          (let userId = (if truthy (js_get context (ascii ''userId''))
                         then js_get context (ascii ''userId'') else Str [])
           in case js_plus rt userId (flag_key flag) of
                Inl e \<Rightarrow> Inl e
              | Inr str \<Rightarrow>
                  Inr \<lparr>matches = (of_int (normalizedHash str) < percentageValue),
                       rr_value = Bool True\<rparr>)
      | USER_SEGMENT segmentValue \<Rightarrow>
          Inr \<lparr>matches = segment_loop context segmentValue, rr_value = Bool True\<rparr>
      | SCHEDULED startDate endDate \<Rightarrow>
          (case js_NewDate rt startDate of
             Inl e \<Rightarrow> Inl e
           | Inr start \<Rightarrow>
               (case (if truthy endDate
                      then (case js_NewDate rt endDate of
                              Inl e \<Rightarrow> Inl e
                            | Inr d \<Rightarrow> Inr (Some d))
                      else Inr None) of
                  Inl e \<Rightarrow> Inl e
                | Inr end \<Rightarrow>
                    (let isAfterStart = (case start of None \<Rightarrow> False | Some s \<Rightarrow> s \<le> now);
                         isBeforeEnd =
                           (case end of
                              None \<Rightarrow> True
                            | Some None \<Rightarrow> False
                            | Some (Some e) \<Rightarrow> now \<le> e)
                     in Inr \<lparr>matches = (isAfterStart \<and> isBeforeEnd),
                             rr_value = Bool True\<rparr>)))
      | DEFAULT v \<Rightarrow> Inr \<lparr>matches = True, rr_value = v\<rparr>
      | OTHER \<Rightarrow> Inr \<lparr>matches = False, rr_value = Null\<rparr>)"

subsection \<open>evaluate\<close>

text \<open>
  \<^verbatim>\<open>[...rules].sort((a, b) => b.priority - a.priority)\<close>: a copy of the array, sorted
  with a comparator. \<^verbatim>\<open>Array.prototype.sort\<close> is stable; it is modelled by the stable
  insertion sort that puts an element before the first later one it does not compare
  greater than.
\<close>

fun insert_by :: "('a \<Rightarrow> 'a \<Rightarrow> rat) \<Rightarrow> 'a \<Rightarrow> 'a list \<Rightarrow> 'a list" where
  "insert_by cmp x [] = [x]"
| "insert_by cmp x (y # ys) =
     (if cmp x y \<le> 0 then x # y # ys else y # insert_by cmp x ys)"

definition js_sort :: "('a \<Rightarrow> 'a \<Rightarrow> rat) \<Rightarrow> 'a list \<Rightarrow> 'a list" where
  "js_sort cmp xs = foldr (insert_by cmp) xs []"

definition by_priority :: "rule \<Rightarrow> rule \<Rightarrow> rat" where
  "by_priority a b = priority b - priority a"

text \<open>
  The loop \<^verbatim>\<open>for (const rule of sortedRules)\<close> with its early return; a rule whose
  evaluation throws ends the loop, and the evaluation, with the error.
\<close>

fun first_match ::
  "js_runtime \<Rightarrow> int \<Rightarrow> flag \<Rightarrow> eval_context \<Rightarrow> rule list \<Rightarrow> error + jsval option" where
  "first_match rt now flag context [] = Inr None"
| "first_match rt now flag context (rule # rest) =
     (case evaluateRule rt now flag rule context of
        Inl e \<Rightarrow> Inl e
      | Inr result \<Rightarrow>
          if matches result then Inr (Some (rr_value result))
          else first_match rt now flag context rest)"

definition evaluate :: "js_runtime \<Rightarrow> int \<Rightarrow> flag \<Rightarrow> js_string \<Rightarrow> eval_context \<Rightarrow> error + jsval" where
  "evaluate rt now flag environment context =
     (case environments flag environment of
        None \<Rightarrow> Inl (EnvironmentNotFound environment (flag_key flag))
      | Some envSettings \<Rightarrow>
          if \<not> enabled envSettings then getDefaultValue flag environment
          else if rules envSettings = [] then getDefaultValue flag environment
          else
            (let sortedRules = js_sort by_priority (rules envSettings)
             in case first_match rt now flag context sortedRules of
                  Inl e \<Rightarrow> Inl e
                | Inr (Some v) \<Rightarrow> Inr v
                | Inr None \<Rightarrow> getDefaultValue flag environment))"

section \<open>The evaluation service\<close>

text \<open>
  \<^verbatim>\<open>Evaluation.recordEvaluation\<close> updates the stored flag:
  \<^verbatim>\<open>$inc: { 'metrics.evaluations': 1 }, $set: { 'metrics.lastEvaluated': new Date() }\<close>.
\<close>

definition recordEvaluation :: "int \<Rightarrow> flag \<Rightarrow> flag" where
  "recordEvaluation t flag =
     flag\<lparr>metrics_evaluations := metrics_evaluations flag + 1,
          metrics_lastEvaluated := Some t\<rparr>"

text \<open>
  \<^verbatim>\<open>const results = {}\<close> is a plain object, given here by its own properties (what the
  caller reads and \<^verbatim>\<open>res.json\<close> serialises). The assignment \<^verbatim>\<open>results[k] = v\<close> creates
  or overwrites the own property \<open>k\<close>, except for the name \<^verbatim>\<open>__proto__\<close>: that
  assignment runs the setter inherited from \<^verbatim>\<open>Object.prototype\<close>, which replaces the
  prototype when \<open>v\<close> is an object or \<^verbatim>\<open>null\<close> and does nothing otherwise; in neither
  case does the object get an own property.
\<close>

definition js_assign :: "(js_string \<rightharpoonup> jsval) \<Rightarrow> js_string \<Rightarrow> jsval \<Rightarrow> (js_string \<rightharpoonup> jsval)" where
  "js_assign obj k v = (if k = ascii ''__proto__'' then obj else obj(k \<mapsto> v))"

text \<open>
  The loop of \<^verbatim>\<open>evaluateAllFlags\<close> over the flags found for the project:
  \<^verbatim>\<open>try { const result = flag.evaluate(environment, context); results[flag.key] = result; ... }
  catch (error) { console.error(...) }\<close>. The recording call is not awaited and its
  failure is caught and logged.
\<close>

fun evaluateAllFlags_loop ::
  "js_runtime \<Rightarrow> int \<Rightarrow> js_string \<Rightarrow> eval_context \<Rightarrow> flag list \<Rightarrow>
   (js_string \<rightharpoonup> jsval) \<Rightarrow> (js_string \<rightharpoonup> jsval)" where
  "evaluateAllFlags_loop rt now environment context [] results = results"
| "evaluateAllFlags_loop rt now environment context (flag # flags) results =
     (case evaluate rt now flag environment context of
        Inr result \<Rightarrow>
          evaluateAllFlags_loop rt now environment context flags
            (js_assign results (flag_key flag) result)
      | Inl error \<Rightarrow> evaluateAllFlags_loop rt now environment context flags results)"

definition evaluateAllFlags ::
  "js_runtime \<Rightarrow> int \<Rightarrow> flag list \<Rightarrow> js_string \<Rightarrow> eval_context \<Rightarrow> (js_string \<rightharpoonup> jsval)" where
  "evaluateAllFlags rt now flags environment context =
     evaluateAllFlags_loop rt now environment context flags Map.empty"

section \<open>Example data\<close>

text \<open>
  The scenarios of the specification's testable properties: a DEFAULT rule of priority 5
  beside a USER\_SEGMENT rule of priority 10; a multivariate flag with the variations
  \<open>A\<close> and \<open>B\<close> and a chosen default key; a flag whose key is \<^verbatim>\<open>__proto__\<close>, which
  the key pattern \<^verbatim>\<open>/^[a-zA-Z0-9_.-]+$/\<close> admits; a flag rolled out to a percentage
  of users.
\<close>

definition priority_env :: env_settings where
  "priority_env =
     \<lparr>enabled = True,
      rules = [\<lparr>priority = 5, config = DEFAULT (Str (ascii ''A''))\<rparr>,
               \<lparr>priority = 10, config = USER_SEGMENT [(ascii ''plan'', Str (ascii ''pro''))]\<rparr>],
      env_value = Undefined, variations = [], defaultVariation = None\<rparr>"

definition priority_flag :: flag where
  "priority_flag =
     \<lparr>flag_key = ascii ''new-checkout'', flag_type = STRING,
      environments = [ascii ''production'' \<mapsto> priority_env],
      metrics_evaluations = 0, metrics_lastEvaluated = None\<rparr>"

definition variation_env :: env_settings where
  "variation_env =
     \<lparr>enabled = False, rules = [], env_value = Undefined,
      variations = [\<lparr>var_key = ascii ''A'', var_value = Num 1\<rparr>,
                    \<lparr>var_key = ascii ''B'', var_value = Num 2\<rparr>],
      defaultVariation = None\<rparr>"

definition variation_flag :: "js_string option \<Rightarrow> flag" where
  "variation_flag dv =
     \<lparr>flag_key = ascii ''page-size'', flag_type = NUMBER,
      environments = [ascii ''production'' \<mapsto> variation_env\<lparr>defaultVariation := dv\<rparr>],
      metrics_evaluations = 0, metrics_lastEvaluated = None\<rparr>"

definition proto_flag :: flag where
  "proto_flag =
     \<lparr>flag_key = ascii ''__proto__'', flag_type = BOOLEAN,
      environments =
        [ascii ''production'' \<mapsto>
           \<lparr>enabled = False, rules = [], env_value = Bool True, variations = [],
            defaultVariation = None\<rparr>],
      metrics_evaluations = 0, metrics_lastEvaluated = None\<rparr>"

definition rollout_flag :: "rat \<Rightarrow> flag" where
  "rollout_flag p =
     \<lparr>flag_key = ascii ''new-checkout'', flag_type = BOOLEAN,
      environments =
        [ascii ''production'' \<mapsto>
           \<lparr>enabled = True, rules = [\<lparr>priority = 0, config = PERCENTAGE p\<rparr>],
            env_value = Bool False, variations = [], defaultVariation = None\<rparr>],
      metrics_evaluations = 0, metrics_lastEvaluated = None\<rparr>"

section \<open>The bucketing hash refines the reference algorithm\<close>

lemma centred_mod:
  fixes x m :: int
  assumes "0 < m"
  shows "(x + m) mod (2 * m) - m = (let u = x mod (2 * m) in if u < m then u else u - 2 * m)"
proof -
  define u where "u = x mod (2 * m)"
  have u: "0 \<le> u" "u < 2 * m"
    using assms by (simp_all add: u_def)
  have eq: "(x + m) mod (2 * m) = (u + m) mod (2 * m)"
    unfolding u_def by (simp add: mod_add_left_eq)
  show ?thesis
  proof (cases "u < m")
    case True
    then have "(u + m) mod (2 * m) = u + m"
      using u by (simp add: mod_pos_pos_trivial)
    with True eq show ?thesis by (simp add: u_def [symmetric])
  next
    case False
    have "(u + m) mod (2 * m) = (u + m - 2 * m) mod (2 * m)"
      by (metis mod_diff_right_eq mod_self diff_zero)
    also have "\<dots> = u + m - 2 * m"
      using u False by (simp add: mod_pos_pos_trivial)
    finally show ?thesis using False eq by (simp add: u_def [symmetric])
  qed
qed

lemma sint_word_of_int_32:
  "sint (word_of_int x :: 32 word) = (let u = x mod 2 ^ 32 in if u < 2 ^ 31 then u else u - 2 ^ 32)"
proof -
  have "sint (word_of_int x :: 32 word) = (x + 2 ^ 31) mod 2 ^ 32 - 2 ^ 31"
    by (simp add: sint_sbintrunc' signed_take_bit_eq_take_bit_shift take_bit_eq_mod)
  also have "\<dots> = (let u = x mod 2 ^ 32 in if u < 2 ^ 31 then u else u - 2 ^ 32)"
    using centred_mod [of "2 ^ 31" x] by (simp add: Let_def)
  finally show ?thesis .
qed

lemma hash_step_word: "hash_step h c = sint (word_of_int (h * 31 + uint c) :: 32 word)"
  by (simp add: hash_step_def js_shl_def js_bitand_def charCodeAt_def Let_def
      push_bit_eq_mult mult.commute)

lemma hash_step_spec: "hash_step h c = spec_step h c"
  by (simp only: hash_step_word sint_word_of_int_32 spec_step_def)

lemma hash_loop_spec: "hash_loop s = foldl spec_step 0 s"
proof -
  have "foldl hash_step h s = foldl spec_step h s" for h
    by (induction s arbitrary: h) (simp_all add: hash_step_spec)
  then show ?thesis by (simp add: hash_loop_def)
qed

lemma abs_js_rem_100: "\<bar>js_rem a 100\<bar> = \<bar>a\<bar> mod 100"
  by (cases "a = 0") (simp_all add: js_rem_def abs_mult)

text \<open>
  C2. For every seed string, the bucket the PERCENTAGE branch computes (shift, subtract,
  add the code unit, truncate to 32 bits with \<^verbatim>\<open>&\<close>, then \<^verbatim>\<open>Math.abs(hash % 100)\<close>)
  is the bucket of the specification's reference algorithm, and it is an integer from 0
  to 99.
\<close>

theorem bucket_refines_reference:
  "normalizedHash s = spec_bucket s \<and> 0 \<le> normalizedHash s \<and> normalizedHash s < 100"
proof -
  have "normalizedHash s = spec_bucket s"
    by (simp add: normalizedHash_def spec_bucket_def abs_js_rem_100 hash_loop_spec)
  moreover have "0 \<le> spec_bucket s" "spec_bucket s < 100"
    by (simp_all add: spec_bucket_def)
  ultimately show ?thesis by simp
qed

section \<open>Conversions at concrete values\<close>

text \<open>
  Safe integers print as their digits, an array as its joined elements, and a plain
  object with an own \<^verbatim>\<open>toString\<close> property has no string form.
\<close>

lemma js_ToString_zero: "js_ToString rt (Num 0) = Inr (ascii ''0'')"
  by (simp add: js_NumberToString_def decimal.simps ascii_def)

lemma js_ToString_42: "js_ToString rt (Num 42) = Inr (ascii ''42'')"
  by (simp add: js_NumberToString_def decimal.simps ascii_def)

lemma js_ToString_neg: "js_ToString rt (Num (-7)) = Inr (ascii ''-7'')"
  by (simp add: js_NumberToString_def decimal.simps ascii_def)

lemma js_ToString_arr: "js_ToString rt (Arr 1 [Str (ascii ''a''), Null, Num 3]) = Inr (ascii ''a,,3'')"
  by (simp add: js_NumberToString_def decimal.simps ascii_def)

lemma js_ToString_obj: "js_ToString rt (Obj 1 [(ascii ''toString'', Num 0)]) = Inl TypeError"
  by simp

lemma js_ToString_obj2: "js_ToString rt (Obj 1 [(ascii ''valueOf'', Num 0)]) = Inr (ascii ''[object Object]'')"
  by (simp add: ascii_def)

text \<open>
The only error of a conversion, and so of a rule's evaluation, is the TypeError.
\<close>

lemma js_ToString_error:
  "js_ToString rt v = Inl e \<Longrightarrow> e = TypeError"
  "js_join rt vs = Inl e \<Longrightarrow> e = TypeError"
  by (induction rt v and rt vs rule: js_ToString_js_join.induct)
    (auto split: if_splits sum.splits)

lemma js_NewDate_error: "js_NewDate rt v = Inl e \<Longrightarrow> e = TypeError"
  by (cases v) (auto simp: js_NewDate_def dest: js_ToString_error split: sum.splits if_splits)

lemma evaluateRule_error: "evaluateRule rt now flag r C = Inl e \<Longrightarrow> e = TypeError"
  by (cases "config r")
    (auto simp: evaluateRule_def js_plus_def Let_def
      dest: js_ToString_error js_NewDate_error split: sum.splits if_splits)

section \<open>The PERCENTAGE rule\<close>

text \<open>
  What the branch computes: the bucket of the string form of the user id (the empty string
  for a falsy one) followed by the key, or the TypeError of the concatenation.
\<close>

lemma percentage_rule_result:
  assumes "config rule = PERCENTAGE p"
  shows "evaluateRule rt now flag rule C =
     (case js_ToString rt (if truthy (js_get C (ascii ''userId''))
                            then js_get C (ascii ''userId'') else Str []) of
        Inl e \<Rightarrow> Inl e
      | Inr u \<Rightarrow>
          Inr \<lparr>matches = (of_int (normalizedHash (u @ flag_key flag)) < p),
               rr_value = Bool True\<rparr>)"
  using assms by (simp add: evaluateRule_def js_plus_def Let_def split: sum.splits)

lemma percentage_falsy_userId:
  assumes "config rule = PERCENTAGE p" and "\<not> truthy (js_get C (ascii ''userId''))"
  shows "evaluateRule rt now flag rule C =
     Inr \<lparr>matches = (of_int (normalizedHash (flag_key flag)) < p), rr_value = Bool True\<rparr>"
  using assms by (simp add: percentage_rule_result)

lemma bucket_user_336: "normalizedHash (ascii ''user-336'' @ ascii ''new-checkout'') = 49"
  by (simp add: normalizedHash_def hash_loop_def hash_step_def js_shl_def js_bitand_def
      js_rem_def charCodeAt_def ascii_def)

lemma bucket_user_34: "normalizedHash (ascii ''user-34'' @ ascii ''new-checkout'') = 50"
  by (simp add: normalizedHash_def hash_loop_def hash_step_def js_shl_def js_bitand_def
      js_rem_def charCodeAt_def ascii_def)

lemma bucket_anonymous: "normalizedHash (ascii ''new-checkout'') = 67"
  by (simp add: normalizedHash_def hash_loop_def hash_step_def js_shl_def js_bitand_def
      js_rem_def charCodeAt_def ascii_def)

lemma bucket_zero: "normalizedHash (ascii ''0'' @ ascii ''new-checkout'') = 81"
  by (simp add: normalizedHash_def hash_loop_def hash_step_def js_shl_def js_bitand_def
      js_rem_def charCodeAt_def ascii_def)

text \<open>
  C3, as amended. For every PERCENTAGE rule with threshold \<open>p\<close> and every context whose
  user id is absent (missing or \<^verbatim>\<open>null\<close>), a string, or any other truthy value: when
  the user id has a string form \<open>u\<close> (the string itself, the converted value, the
  empty string when absent), the rule matches exactly when the bucket of \<open>u\<close> followed
  by the flag's key is strictly below \<open>p\<close>, the value it emits is \<^verbatim>\<open>true\<close>, and a
  bucket equal to \<open>p\<close> does not match; when it has none (an object with an own
  \<^verbatim>\<open>toString\<close> property), evaluating the rule throws a TypeError. A user id that is
  falsy without being a string (\<^verbatim>\<open>0\<close>, \<^verbatim>\<open>false\<close>) is left out of the statement.
\<close>

theorem percentage_rule_matches:
  assumes "config rule = PERCENTAGE p"
    and "uid = js_get C (ascii ''userId'')"
    and "uid = Undefined \<or> uid = Null \<or> uid = Str [] \<or> truthy uid"
  shows "(\<forall>u. (if truthy uid then js_ToString rt uid else Inr []) = Inr u \<longrightarrow>
            evaluateRule rt now flag rule C =
              Inr \<lparr>matches = (of_int (normalizedHash (u @ flag_key flag)) < p),
                   rr_value = Bool True\<rparr> \<and>
            (of_int (normalizedHash (u @ flag_key flag)) = p \<longrightarrow>
               evaluateRule rt now flag rule C = Inr \<lparr>matches = False, rr_value = Bool True\<rparr>)) \<and>
         (\<forall>e. truthy uid \<and> js_ToString rt uid = Inl e \<longrightarrow>
            evaluateRule rt now flag rule C = Inl e)"
proof (intro conjI allI impI)
  fix u
  assume u: "(if truthy uid then js_ToString rt uid else Inr []) = Inr u"
  show r: "evaluateRule rt now flag rule C =
      Inr \<lparr>matches = (of_int (normalizedHash (u @ flag_key flag)) < p), rr_value = Bool True\<rparr>"
    using u assms(1) unfolding assms(2)
    by (simp add: percentage_rule_result split: if_splits)
  assume "of_int (normalizedHash (u @ flag_key flag)) = p"
  with r show "evaluateRule rt now flag rule C = Inr \<lparr>matches = False, rr_value = Bool True\<rparr>"
    by simp
next
  fix e
  assume "truthy uid \<and> js_ToString rt uid = Inl e"
  then show "evaluateRule rt now flag rule C = Inl e"
    using assms(1) unfolding assms(2) by (simp add: percentage_rule_result)
qed

text \<open>
  With the threshold 50 and the flag key \<^verbatim>\<open>new-checkout\<close>: the user \<^verbatim>\<open>user-336\<close> has bucket
  49 and matches, the user \<^verbatim>\<open>user-34\<close> has bucket 50 and does not, whether the id is the
  string or the one-element array that converts to it; a context without a user id is
  bucketed on the key alone (67); the user id \<^verbatim>\<open>{toString: 0}\<close> makes the rule throw.
\<close>

theorem percentage_rule_matches_witness:
  "\<forall>rt.
   evaluateRule rt 0 priority_flag \<lparr>priority = 0, config = PERCENTAGE 50\<rparr>
      [(ascii ''userId'', Str (ascii ''user-336''))]
     = Inr \<lparr>matches = True, rr_value = Bool True\<rparr> \<and>
   evaluateRule rt 0 priority_flag \<lparr>priority = 0, config = PERCENTAGE 50\<rparr>
      [(ascii ''userId'', Str (ascii ''user-34''))]
     = Inr \<lparr>matches = False, rr_value = Bool True\<rparr> \<and>
   evaluateRule rt 0 priority_flag \<lparr>priority = 0, config = PERCENTAGE 50\<rparr>
      [(ascii ''plan'', Str (ascii ''pro''))]
     = Inr \<lparr>matches = False, rr_value = Bool True\<rparr> \<and>
   evaluateRule rt 0 priority_flag \<lparr>priority = 0, config = PERCENTAGE 50\<rparr>
      [(ascii ''userId'', Arr 1 [Str (ascii ''user-34'')])]
     = Inr \<lparr>matches = False, rr_value = Bool True\<rparr> \<and>
   evaluateRule rt 0 priority_flag \<lparr>priority = 0, config = PERCENTAGE 50\<rparr>
      [(ascii ''userId'', Obj 1 [(ascii ''toString'', Num 0)])]
     = Inl TypeError"
proof
  fix rt
  let ?r = "\<lparr>priority = 0, config = PERCENTAGE 50\<rparr>"
  have c: "config ?r = PERCENTAGE 50" by simp
  have k: "flag_key priority_flag = ascii ''new-checkout''"
    by (simp add: priority_flag_def)
  have g1: "Str (ascii ''user-336'') =
      js_get [(ascii ''userId'', Str (ascii ''user-336''))] (ascii ''userId'')"
    and g2: "Str (ascii ''user-34'') =
      js_get [(ascii ''userId'', Str (ascii ''user-34''))] (ascii ''userId'')"
    and g4: "Arr 1 [Str (ascii ''user-34'')] =
      js_get [(ascii ''userId'', Arr 1 [Str (ascii ''user-34'')])] (ascii ''userId'')"
    and g5: "Obj 1 [(ascii ''toString'', Num 0)] =
      js_get [(ascii ''userId'', Obj 1 [(ascii ''toString'', Num 0)])] (ascii ''userId'')"
    by (simp_all add: js_get_def)
  have g3: "Undefined = js_get [(ascii ''plan'', Str (ascii ''pro''))] (ascii ''userId'')"
    by (simp add: js_get_def ascii_def)
  have t1: "ascii ''user-336'' \<noteq> []" and t2: "ascii ''user-34'' \<noteq> []"
    by (simp_all add: ascii_def)
  have d1: "Str (ascii ''user-336'') = Undefined \<or> Str (ascii ''user-336'') = Null \<or>
      Str (ascii ''user-336'') = Str [] \<or> truthy (Str (ascii ''user-336''))"
    and d2: "Str (ascii ''user-34'') = Undefined \<or> Str (ascii ''user-34'') = Null \<or>
      Str (ascii ''user-34'') = Str [] \<or> truthy (Str (ascii ''user-34''))"
    using t1 t2 by simp_all
  have d3: "Undefined = Undefined \<or> Undefined = Null \<or> Undefined = Str [] \<or> truthy Undefined"
    and d4: "Arr 1 [Str (ascii ''user-34'')] = Undefined \<or> Arr 1 [Str (ascii ''user-34'')] = Null \<or>
      Arr 1 [Str (ascii ''user-34'')] = Str [] \<or> truthy (Arr 1 [Str (ascii ''user-34'')])"
    and d5: "Obj 1 [(ascii ''toString'', Num 0)] = Undefined \<or>
      Obj 1 [(ascii ''toString'', Num 0)] = Null \<or>
      Obj 1 [(ascii ''toString'', Num 0)] = Str [] \<or> truthy (Obj 1 [(ascii ''toString'', Num 0)])"
    by simp_all
  show "evaluateRule rt 0 priority_flag ?r [(ascii ''userId'', Str (ascii ''user-336''))]
     = Inr \<lparr>matches = True, rr_value = Bool True\<rparr> \<and>
   evaluateRule rt 0 priority_flag ?r [(ascii ''userId'', Str (ascii ''user-34''))]
     = Inr \<lparr>matches = False, rr_value = Bool True\<rparr> \<and>
   evaluateRule rt 0 priority_flag ?r [(ascii ''plan'', Str (ascii ''pro''))]
     = Inr \<lparr>matches = False, rr_value = Bool True\<rparr> \<and>
   evaluateRule rt 0 priority_flag ?r [(ascii ''userId'', Arr 1 [Str (ascii ''user-34'')])]
     = Inr \<lparr>matches = False, rr_value = Bool True\<rparr> \<and>
   evaluateRule rt 0 priority_flag ?r [(ascii ''userId'', Obj 1 [(ascii ''toString'', Num 0)])]
     = Inl TypeError"
    using percentage_rule_matches [OF c g1 d1, of rt 0 priority_flag]
      percentage_rule_matches [OF c g2 d2, of rt 0 priority_flag]
      percentage_rule_matches [OF c g3 d3, of rt 0 priority_flag]
      percentage_rule_matches [OF c g4 d4, of rt 0 priority_flag]
      percentage_rule_matches [OF c g5 d5, of rt 0 priority_flag]
    by (simp add: k t1 t2 bucket_user_336 bucket_user_34 bucket_anonymous)
qed

text \<open>
  The claim as first stated (for every context, the rule matches exactly when the bucket of
  \<^verbatim>\<open>userId + key\<close> is below the threshold, the empty string standing in for an absent
  user id only) fails at two contexts. For the user id \<^verbatim>\<open>{toString: 0}\<close> the rule has no
  result: its evaluation throws. For the user id \<^verbatim>\<open>0\<close> and the threshold 68 the rule
  matches, on the seed \<^verbatim>\<open>new-checkout\<close> (bucket 67), while \<^verbatim>\<open>0 + key\<close> is
  \<^verbatim>\<open>0new-checkout\<close>, whose bucket 81 is not below 68.
\<close>

lemma percentage_userId_zero:
  "evaluateRule rt 0 (rollout_flag 68) \<lparr>priority = 0, config = PERCENTAGE 68\<rparr>
      [(ascii ''userId'', Num 0)] = Inr \<lparr>matches = True, rr_value = Bool True\<rparr> \<and>
   js_plus rt (Num 0) (flag_key (rollout_flag 68)) = Inr (ascii ''0'' @ ascii ''new-checkout'') \<and>
   normalizedHash (ascii ''0'' @ ascii ''new-checkout'') = 81"
  using bucket_anonymous bucket_zero
  by (simp add: evaluateRule_def js_plus_def js_get_def rollout_flag_def
      js_NumberToString_def decimal.simps ascii_def)

theorem percentage_rule_throws_or_drops_userId:
  "(\<forall>rt. evaluateRule rt 0 (rollout_flag 50) \<lparr>priority = 0, config = PERCENTAGE 50\<rparr>
      [(ascii ''userId'', Obj 1 [(ascii ''toString'', Num 0)])] = Inl TypeError) \<and>
   (\<forall>rt. evaluateRule rt 0 (rollout_flag 68) \<lparr>priority = 0, config = PERCENTAGE 68\<rparr>
      [(ascii ''userId'', Num 0)] = Inr \<lparr>matches = True, rr_value = Bool True\<rparr>) \<and>
   (\<forall>rt. js_plus rt (Num 0) (flag_key (rollout_flag 68)) =
      Inr (ascii ''0'' @ ascii ''new-checkout'')) \<and>
   normalizedHash (ascii ''0'' @ ascii ''new-checkout'') = 81"
  using percentage_userId_zero
  by (simp add: evaluateRule_def js_plus_def js_get_def)

section \<open>The USER\_SEGMENT rule\<close>

text \<open>
  What the loop computes: every required attribute must read as a truthy value of the
  context that is strictly equal to the required one.
\<close>

lemma segment_loop_iff:
  "segment_loop C es \<longleftrightarrow>
     (\<forall>(k, v)\<in>set es. truthy (js_get C k) \<and> strict_eq (js_get C k) v)"
  by (induction es) (auto split: if_splits)

text \<open>
  C5. The claim reads: the rule matches if and only if every key of the rule's mapping is
  present in the context with a strictly equal value. The code tests presence with
  \<^verbatim>\<open>!context[key]\<close>, so a required value that is falsy (\<^verbatim>\<open>false\<close>, \<^verbatim>\<open>0\<close>, the empty
  string) can never be matched: for the segment \<^verbatim>\<open>{beta: false}\<close> and the context
  \<^verbatim>\<open>{beta: false}\<close> the key is present and strictly equal, and the rule does not match.
\<close>

theorem segment_rule_rejects_equal_falsy_attribute:
  "map_of [(ascii ''beta'', Bool False)] (ascii ''beta'') = Some (Bool False) \<and>
   strict_eq (js_get [(ascii ''beta'', Bool False)] (ascii ''beta'')) (Bool False) \<and>
   (\<forall>rt. evaluateRule rt 0 priority_flag
       \<lparr>priority = 0, config = USER_SEGMENT [(ascii ''beta'', Bool False)]\<rparr>
       [(ascii ''beta'', Bool False)]
     = Inr \<lparr>matches = False, rr_value = Bool True\<rparr>)"
  by (simp add: evaluateRule_def js_get_def)

section \<open>The SCHEDULED rule\<close>

text \<open>
  What the branch computes when both dates convert: with the start date at the time \<open>s\<close>
  and the end date falsy or at the time \<open>e\<close>, the rule matches at \<open>now\<close> exactly when
  \<open>s \<le> now\<close> and the end date is falsy or \<open>now \<le> e\<close>. The window from 2024-01-01 to
  2024-01-31 (as epoch milliseconds) contains 2024-01-15 and not 2024-02-01; without an
  end date 2024-02-01 matches.
\<close>

lemma scheduled_rule_result:
  assumes "config rule = SCHEDULED startDate endDate"
    and "js_NewDate rt startDate = Inr (Some s)"
    and "\<not> truthy endDate \<or> js_NewDate rt endDate = Inr (Some e)"
  shows "evaluateRule rt now flag rule C =
           Inr \<lparr>matches = (s \<le> now \<and> (\<not> truthy endDate \<or> now \<le> e)), rr_value = Bool True\<rparr>"
  using assms by (auto simp: evaluateRule_def Let_def)

lemma scheduled_window_example:
  "evaluateRule rt 1705276800000 priority_flag
      \<lparr>priority = 0, config = SCHEDULED (Num 1704067200000) (Num 1706659200000)\<rparr> []
     = Inr \<lparr>matches = True, rr_value = Bool True\<rparr> \<and>
   evaluateRule rt 1706745600000 priority_flag
      \<lparr>priority = 0, config = SCHEDULED (Num 1704067200000) (Num 1706659200000)\<rparr> []
     = Inr \<lparr>matches = False, rr_value = Bool True\<rparr> \<and>
   evaluateRule rt 1706745600000 priority_flag
      \<lparr>priority = 0, config = SCHEDULED (Num 1704067200000) Undefined\<rparr> []
     = Inr \<lparr>matches = True, rr_value = Bool True\<rparr>"
  by (simp add: evaluateRule_def js_NewDate_def TimeClip_def)

text \<open>
  C6. The claim reads: the rule matches if and only if \<open>now\<close> is not before the start date
  and the end date is absent or not before \<open>now\<close>. The code tests the presence of the end
  date with \<^verbatim>\<open>endDate ? new Date(endDate) : null\<close>, so an end date that is present and
  falsy is ignored: for the rule value \<^verbatim>\<open>{startDate: 1704067200000, endDate: 0}\<close>, both
  valid times, and \<open>now\<close> at 2024-01-15, the end date 0 is long past and the rule matches.
\<close>

theorem scheduled_rule_ignores_end_date_zero:
  "(\<forall>rt. js_NewDate rt (Num 1704067200000) = Inr (Some 1704067200000)) \<and>
   (\<forall>rt. js_NewDate rt (Num 0) = Inr (Some 0)) \<and>
   (\<forall>rt. evaluateRule rt 1705276800000 priority_flag
      \<lparr>priority = 0, config = SCHEDULED (Num 1704067200000) (Num 0)\<rparr> []
     = Inr \<lparr>matches = True, rr_value = Bool True\<rparr>)"
  by (simp add: evaluateRule_def js_NewDate_def TimeClip_def)

section \<open>Rule order\<close>

text \<open>
  The sorted copy is a permutation of the rules, in descending priority, and rules of
  equal priority keep their order. The loop stops at the first rule of the list that
  matches or whose evaluation throws.
\<close>

lemma mset_insert_by: "mset (insert_by cmp x ys) = add_mset x (mset ys)"
  by (induction ys) simp_all

lemma mset_js_sort: "mset (js_sort cmp xs) = mset xs"
  by (induction xs) (simp_all add: js_sort_def mset_insert_by)

lemma set_insert_by: "set (insert_by cmp x ys) = insert x (set ys)"
  by (induction ys) auto

lemma set_js_sort: "set (js_sort cmp xs) = set xs"
  by (induction xs) (simp_all add: js_sort_def set_insert_by)

lemma sorted_insert_by_priority:
  "sorted_wrt (\<lambda>a b. priority b \<le> priority a) ys \<Longrightarrow>
   sorted_wrt (\<lambda>a b. priority b \<le> priority a) (insert_by by_priority x ys)"
  by (induction ys) (auto simp: set_insert_by by_priority_def)

lemma sorted_js_sort_priority:
  "sorted_wrt (\<lambda>a b. priority b \<le> priority a) (js_sort by_priority xs)"
  by (induction xs) (simp_all add: js_sort_def sorted_insert_by_priority)

lemma filter_insert_by_priority:
  "filter (\<lambda>r. priority r = p) (insert_by by_priority x ys) =
   filter (\<lambda>r. priority r = p) (x # ys)"
  by (induction ys) (auto simp: by_priority_def)

lemma filter_js_sort_priority:
  "filter (\<lambda>r. priority r = p) (js_sort by_priority xs) = filter (\<lambda>r. priority r = p) xs"
proof (induction xs)
  case Nil
  show ?case by (simp add: js_sort_def)
next
  case (Cons x xs)
  have "js_sort by_priority (x # xs) = insert_by by_priority x (js_sort by_priority xs)"
    by (simp add: js_sort_def)
  with Cons show ?case by (simp add: filter_insert_by_priority)
qed

lemma first_match_find:
  "first_match rt now flag C rs =
     (case find (\<lambda>r. case evaluateRule rt now flag r C of
                        Inl e \<Rightarrow> True | Inr res \<Rightarrow> matches res) rs of
        None \<Rightarrow> Inr None
      | Some r \<Rightarrow>
          (case evaluateRule rt now flag r C of
             Inl e \<Rightarrow> Inl e
           | Inr res \<Rightarrow> Inr (Some (rr_value res))))"
  by (induction rs) (simp_all split: sum.splits)

lemma getDefaultValue_total:
  "environments flag E = Some env \<Longrightarrow> \<exists>d. getDefaultValue flag E = Inr d"
  by (simp add: getDefaultValue_def Let_def)

lemma evaluate_enabled_rules:
  assumes "environments flag E = Some env" "enabled env" "rules env \<noteq> []"
  shows "evaluate rt now flag E C =
     (case find (\<lambda>r. case evaluateRule rt now flag r C of
                        Inl e \<Rightarrow> True | Inr res \<Rightarrow> matches res)
             (js_sort by_priority (rules env)) of
        Some r \<Rightarrow>
          (case evaluateRule rt now flag r C of
             Inl e \<Rightarrow> Inl e
           | Inr res \<Rightarrow> Inr (rr_value res))
      | None \<Rightarrow> getDefaultValue flag E)"
  using assms by (simp add: evaluate_def first_match_find split: option.splits sum.splits)




section \<open>The result of evaluate\<close>

lemma find_Some_set: "find P xs = Some x \<Longrightarrow> x \<in> set xs \<and> P x"
  by (induction xs) (auto split: if_splits)

text \<open>
  C1, as amended. \<^verbatim>\<open>evaluate\<close> fails with the environment-not-found error exactly when
  the environment is not a key of the flag's environments map. Otherwise the default value
  \<open>d\<close> exists, and the result is \<open>d\<close> when the environment is disabled or has no
  rules. When it is enabled, the rules are tried in priority order (the sorted copy: the
  same rules, in descending priority, equal priorities in array order) up to the first
  rule that matches or whose evaluation throws: the result is \<open>d\<close> when there is no such
  rule, the value the rule emits when it matches, and the rule's error when it throws.
  So \<^verbatim>\<open>evaluate\<close> returns a value whenever no rule's evaluation throws, and a failure
  in an existing environment is the TypeError of one of its rules.
\<close>

theorem evaluate_result:
  "(evaluate rt now flag E C = Inl (EnvironmentNotFound E (flag_key flag)) \<longleftrightarrow>
      E \<notin> dom (environments flag)) \<and>
   (\<forall>env. environments flag E = Some env \<longrightarrow>
      (\<exists>d sortedRules.
         getDefaultValue flag E = Inr d \<and>
         sortedRules = js_sort by_priority (rules env) \<and>
         mset sortedRules = mset (rules env) \<and>
         sorted_wrt (\<lambda>a b. priority b \<le> priority a) sortedRules \<and>
         (\<forall>p. filter (\<lambda>r. priority r = p) sortedRules =
              filter (\<lambda>r. priority r = p) (rules env)) \<and>
         (\<not> enabled env \<or> rules env = [] \<longrightarrow> evaluate rt now flag E C = Inr d) \<and>
         (enabled env \<longrightarrow>
            evaluate rt now flag E C =
              (case find (\<lambda>r. case evaluateRule rt now flag r C of
                                 Inl e \<Rightarrow> True | Inr res \<Rightarrow> matches res) sortedRules of
                 None \<Rightarrow> Inr d
               | Some r \<Rightarrow>
                   (case evaluateRule rt now flag r C of
                      Inl e \<Rightarrow> Inl e
                    | Inr res \<Rightarrow> Inr (rr_value res)))) \<and>
         ((\<forall>r\<in>set (rules env). \<exists>res. evaluateRule rt now flag r C = Inr res) \<longrightarrow>
            (\<exists>v. evaluate rt now flag E C = Inr v)) \<and>
         (\<forall>e. evaluate rt now flag E C = Inl e \<longrightarrow>
            e = TypeError \<and> (\<exists>r\<in>set (rules env). evaluateRule rt now flag r C = Inl TypeError))))"
proof (intro conjI allI impI)
  show "evaluate rt now flag E C = Inl (EnvironmentNotFound E (flag_key flag)) \<longleftrightarrow>
      E \<notin> dom (environments flag)"
  proof (cases "environments flag E")
    case None
    then show ?thesis by (simp add: evaluate_def domIff)
  next
    case (Some env)
    obtain d where d: "getDefaultValue flag E = Inr d"
      using getDefaultValue_total [OF Some] by blast
    have "evaluate rt now flag E C \<noteq> Inl (EnvironmentNotFound E (flag_key flag))"
    proof (cases "enabled env \<and> rules env \<noteq> []")
      case False
      then show ?thesis using Some d by (auto simp: evaluate_def)
    next
      case True
      let ?stops = "\<lambda>r. case evaluateRule rt now flag r C of
                          Inl e \<Rightarrow> True | Inr res \<Rightarrow> matches res"
      have ev: "evaluate rt now flag E C =
         (case find ?stops (js_sort by_priority (rules env)) of
            Some r \<Rightarrow>
              (case evaluateRule rt now flag r C of
                 Inl e \<Rightarrow> Inl e
               | Inr res \<Rightarrow> Inr (rr_value res))
          | None \<Rightarrow> getDefaultValue flag E)"
        using Some True by (simp add: evaluate_enabled_rules)
      have no_env_error: "evaluateRule rt now flag r C \<noteq> Inl (EnvironmentNotFound a b)" for r a b
        using evaluateRule_error [of rt now flag r C "EnvironmentNotFound a b"] by auto
      show ?thesis
        unfolding ev using d no_env_error
        by (auto split: option.splits sum.splits)
    qed
    with Some show ?thesis by (simp add: domIff)
  qed
next
  fix env
  assume env: "environments flag E = Some env"
  obtain d where d: "getDefaultValue flag E = Inr d"
    using getDefaultValue_total [OF env] by blast
  let ?stops = "\<lambda>r. case evaluateRule rt now flag r C of
                      Inl e \<Rightarrow> True | Inr res \<Rightarrow> matches res"
  let ?sorted = "js_sort by_priority (rules env)"
  let ?outcome = "case find ?stops ?sorted of
                    None \<Rightarrow> Inr d
                  | Some r \<Rightarrow>
                      (case evaluateRule rt now flag r C of
                         Inl e \<Rightarrow> Inl e
                       | Inr res \<Rightarrow> Inr (rr_value res))"
  have dflt: "evaluate rt now flag E C = Inr d" if "\<not> enabled env \<or> rules env = []"
    using that env d by (auto simp: evaluate_def)
  have en: "evaluate rt now flag E C = ?outcome" if "enabled env"
  proof (cases "rules env = []")
    case True
    then show ?thesis using dflt by (simp add: js_sort_def)
  next
    case False
    with that env show ?thesis
      by (simp add: evaluate_enabled_rules d split: option.splits)
  qed
  have nothrow: "\<exists>v. evaluate rt now flag E C = Inr v"
    if nt: "\<forall>r\<in>set (rules env). \<exists>res. evaluateRule rt now flag r C = Inr res"
  proof (cases "enabled env")
    case False
    then show ?thesis using dflt by blast
  next
    case True
    show ?thesis
    proof (cases "find ?stops ?sorted")
      case None
      with en [OF True] show ?thesis by simp
    next
      case (Some r)
      then have "r \<in> set (rules env)"
        using find_Some_set [of ?stops ?sorted r] by (simp add: set_js_sort)
      with nt obtain res where "evaluateRule rt now flag r C = Inr res" by blast
      with Some en [OF True] show ?thesis by simp
    qed
  qed
  have fails: "e = TypeError \<and> (\<exists>r\<in>set (rules env). evaluateRule rt now flag r C = Inl TypeError)"
    if e: "evaluate rt now flag E C = Inl e" for e
  proof -
    have enabled: "enabled env" using dflt e by auto
    from en [OF enabled] e obtain r where
      r: "find ?stops ?sorted = Some r" and re: "evaluateRule rt now flag r C = Inl e"
      by (auto split: option.splits sum.splits)
    from r have "r \<in> set (rules env)"
      using find_Some_set [of ?stops ?sorted r] by (simp add: set_js_sort)
    moreover from re have "e = TypeError" by (rule evaluateRule_error)
    ultimately show ?thesis using re by blast
  qed
  show "\<exists>d sortedRules.
         getDefaultValue flag E = Inr d \<and>
         sortedRules = js_sort by_priority (rules env) \<and>
         mset sortedRules = mset (rules env) \<and>
         sorted_wrt (\<lambda>a b. priority b \<le> priority a) sortedRules \<and>
         (\<forall>p. filter (\<lambda>r. priority r = p) sortedRules =
              filter (\<lambda>r. priority r = p) (rules env)) \<and>
         (\<not> enabled env \<or> rules env = [] \<longrightarrow> evaluate rt now flag E C = Inr d) \<and>
         (enabled env \<longrightarrow>
            evaluate rt now flag E C =
              (case find ?stops sortedRules of
                 None \<Rightarrow> Inr d
               | Some r \<Rightarrow>
                   (case evaluateRule rt now flag r C of
                      Inl e \<Rightarrow> Inl e
                    | Inr res \<Rightarrow> Inr (rr_value res)))) \<and>
         ((\<forall>r\<in>set (rules env). \<exists>res. evaluateRule rt now flag r C = Inr res) \<longrightarrow>
            (\<exists>v. evaluate rt now flag E C = Inr v)) \<and>
         (\<forall>e. evaluate rt now flag E C = Inl e \<longrightarrow>
            e = TypeError \<and> (\<exists>r\<in>set (rules env). evaluateRule rt now flag r C = Inl TypeError))"
    using d dflt en nothrow fails
    by (intro exI [of _ d] exI [of _ ?sorted])
      (simp add: mset_js_sort sorted_js_sort_priority filter_js_sort_priority)
qed

text \<open>
  A missing environment fails; the priority scenario returns the segment rule's value; a
  disabled multivariate flag returns its first variation; the rollout at threshold 50
  returns the default \<^verbatim>\<open>false\<close> for \<^verbatim>\<open>user-34\<close> (bucket 50), whose rule does not match.
\<close>

theorem evaluate_result_witness:
  "\<forall>rt.
   evaluate rt 0 priority_flag (ascii ''staging'') [] =
     Inl (EnvironmentNotFound (ascii ''staging'') (ascii ''new-checkout'')) \<and>
   evaluate rt 0 priority_flag (ascii ''production'') [(ascii ''plan'', Str (ascii ''pro''))]
     = Inr (Bool True) \<and>
   evaluate rt 0 (variation_flag None) (ascii ''production'') [] = Inr (Num 1) \<and>
   evaluate rt 0 (rollout_flag 50) (ascii ''production'')
     [(ascii ''userId'', Str (ascii ''user-34''))] = Inr (Bool False)"
proof
  fix rt
  let ?seg = "\<lparr>priority = 10, config = USER_SEGMENT [(ascii ''plan'', Str (ascii ''pro''))]\<rparr>"
  let ?def = "\<lparr>priority = 5, config = DEFAULT (Str (ascii ''A''))\<rparr>"
  let ?pct = "\<lparr>priority = 0, config = PERCENTAGE 50\<rparr>"
  have absent: "ascii ''staging'' \<notin> dom (environments priority_flag)"
    by (simp add: priority_flag_def ascii_def)
  have k: "flag_key priority_flag = ascii ''new-checkout''"
    by (simp add: priority_flag_def)
  have e1: "environments priority_flag (ascii ''production'') = Some priority_env"
    by (simp add: priority_flag_def)
  have e2: "environments (variation_flag None) (ascii ''production'') = Some variation_env"
    by (simp add: variation_flag_def variation_env_def)
  have e3: "environments (rollout_flag 50) (ascii ''production'') =
      Some \<lparr>enabled = True, rules = [?pct], env_value = Bool False, variations = [],
            defaultVariation = None\<rparr>"
    by (simp add: rollout_flag_def)
  have d1: "getDefaultValue priority_flag (ascii ''production'') = Inr Null"
    by (simp add: getDefaultValue_def priority_flag_def priority_env_def)
  have d2: "getDefaultValue (variation_flag None) (ascii ''production'') = Inr (Num 1)"
    by (simp add: getDefaultValue_def variation_flag_def variation_env_def)
  have d3: "getDefaultValue (rollout_flag 50) (ascii ''production'') = Inr (Bool False)"
    by (simp add: getDefaultValue_def rollout_flag_def)
  have s1: "js_sort by_priority [?def, ?seg] = [?seg, ?def]"
    by (simp add: js_sort_def by_priority_def)
  have s3: "js_sort by_priority [?pct] = [?pct]"
    by (simp add: js_sort_def)
  have seg: "evaluateRule rt 0 priority_flag ?seg [(ascii ''plan'', Str (ascii ''pro''))]
      = Inr \<lparr>matches = True, rr_value = Bool True\<rparr>"
    by (simp add: evaluateRule_def js_get_def ascii_def)
  have pct: "evaluateRule rt 0 (rollout_flag 50) ?pct [(ascii ''userId'', Str (ascii ''user-34''))]
      = Inr \<lparr>matches = False, rr_value = Bool True\<rparr>"
  proof -
    have "ascii ''user-34'' \<noteq> []" by (simp add: ascii_def)
    then show ?thesis
      using bucket_user_34
      by (simp add: evaluateRule_def js_plus_def js_get_def rollout_flag_def)
  qed
  have r0: "evaluate rt 0 priority_flag (ascii ''staging'') [] =
     Inl (EnvironmentNotFound (ascii ''staging'') (ascii ''new-checkout''))"
    using evaluate_result [of rt 0 priority_flag "ascii ''staging''" "[]"] absent
    by (simp add: k)
  have r1: "evaluate rt 0 priority_flag (ascii ''production'')
      [(ascii ''plan'', Str (ascii ''pro''))] = Inr (Bool True)"
    using evaluate_result [of rt 0 priority_flag "ascii ''production''"
        "[(ascii ''plan'', Str (ascii ''pro''))]"] e1
    by (simp add: d1 s1 seg priority_env_def)
  have r2: "evaluate rt 0 (variation_flag None) (ascii ''production'') [] = Inr (Num 1)"
    using evaluate_result [of rt 0 "variation_flag None" "ascii ''production''" "[]"] e2
    by (simp add: d2 variation_env_def)
  have r3: "evaluate rt 0 (rollout_flag 50) (ascii ''production'')
     [(ascii ''userId'', Str (ascii ''user-34''))] = Inr (Bool False)"
    using evaluate_result [of rt 0 "rollout_flag 50" "ascii ''production''"
        "[(ascii ''userId'', Str (ascii ''user-34''))]"] e3
    by (simp add: d3 s3 pct)
  from r0 r1 r2 r3 show "evaluate rt 0 priority_flag (ascii ''staging'') [] =
     Inl (EnvironmentNotFound (ascii ''staging'') (ascii ''new-checkout'')) \<and>
   evaluate rt 0 priority_flag (ascii ''production'') [(ascii ''plan'', Str (ascii ''pro''))]
     = Inr (Bool True) \<and>
   evaluate rt 0 (variation_flag None) (ascii ''production'') [] = Inr (Num 1) \<and>
   evaluate rt 0 (rollout_flag 50) (ascii ''production'')
     [(ascii ''userId'', Str (ascii ''user-34''))] = Inr (Bool False)"
    by simp
qed

text \<open>
  The claim as first stated (\<^verbatim>\<open>evaluate\<close> fails if and only if the environment is
  missing, and returns a value otherwise) fails for an enabled percentage rollout and the
  context \<^verbatim>\<open>{userId: {toString: 0}}\<close>: the environment exists and the evaluation throws
  a TypeError at \<^verbatim>\<open>userId + this.key\<close>.
\<close>

theorem evaluate_throws_in_existing_environment:
  "ascii ''production'' \<in> dom (environments (rollout_flag 50)) \<and>
   (\<forall>rt. evaluate rt 0 (rollout_flag 50) (ascii ''production'')
      [(ascii ''userId'', Obj 1 [(ascii ''toString'', Num 0)])] = Inl TypeError)"
  by (simp add: evaluate_def rollout_flag_def js_sort_def evaluateRule_def js_plus_def js_get_def)

section \<open>The default value\<close>

lemma find_distinct_key:
  "distinct (map f xs) \<Longrightarrow> v \<in> set xs \<Longrightarrow> find (\<lambda>x. f x = f v) xs = Some v"
  by (induction xs) (auto simp: image_iff)

lemma find_hd: "xs \<noteq> [] \<Longrightarrow> find (\<lambda>x. f x = f (hd xs)) xs = Some (hd xs)"
  by (cases xs) simp_all

text \<open>
  C7. For the settings of an existing environment: a BOOLEAN flag defaults to the
  settings' value if it is defined and to \<^verbatim>\<open>false\<close> otherwise. Any other flag with
  variations defaults to the value of the first variation when no default variation is set
  (the field is missing, \<^verbatim>\<open>null\<close> or empty), and to the value of the variation whose
  key the default variation names when there is one (keys being unique); without
  variations it defaults to the settings' value if defined and to \<^verbatim>\<open>null\<close> otherwise.
\<close>

theorem default_value_resolver:
  assumes "environments flag E = Some env"
  shows "(flag_type flag = BOOLEAN \<longrightarrow>
            getDefaultValue flag E =
              Inr (if env_value env \<noteq> Undefined then env_value env else Bool False)) \<and>
         (flag_type flag \<noteq> BOOLEAN \<and> variations env \<noteq> [] \<and>
            (defaultVariation env = None \<or> defaultVariation env = Some []) \<longrightarrow>
            getDefaultValue flag E = Inr (var_value (hd (variations env)))) \<and>
         (flag_type flag \<noteq> BOOLEAN \<and> defaultVariation env = Some k \<and> k \<noteq> [] \<and>
            distinct (map var_key (variations env)) \<and>
            v \<in> set (variations env) \<and> var_key v = k \<longrightarrow>
            getDefaultValue flag E = Inr (var_value v)) \<and>
         (flag_type flag \<noteq> BOOLEAN \<and> variations env = [] \<longrightarrow>
            getDefaultValue flag E =
              Inr (if env_value env \<noteq> Undefined then env_value env else Null))"
proof (intro conjI impI)
  assume "flag_type flag = BOOLEAN"
  with assms show "getDefaultValue flag E =
      Inr (if env_value env \<noteq> Undefined then env_value env else Bool False)"
    by (simp add: getDefaultValue_def)
next
  assume a: "flag_type flag \<noteq> BOOLEAN \<and> variations env \<noteq> [] \<and>
    (defaultVariation env = None \<or> defaultVariation env = Some [])"
  then have "find (\<lambda>v. var_key v = var_key (hd (variations env))) (variations env)
             = Some (hd (variations env))"
    by (simp add: find_hd)
  with a assms show "getDefaultValue flag E = Inr (var_value (hd (variations env)))"
    by (auto simp: getDefaultValue_def Let_def)
next
  assume a: "flag_type flag \<noteq> BOOLEAN \<and> defaultVariation env = Some k \<and> k \<noteq> [] \<and>
    distinct (map var_key (variations env)) \<and> v \<in> set (variations env) \<and> var_key v = k"
  then have dist: "distinct (map var_key (variations env))"
    and vin: "v \<in> set (variations env)" and kv: "var_key v = k"
    by simp_all
  have "find (\<lambda>x. var_key x = k) (variations env) = Some v"
    using find_distinct_key [OF dist vin] kv by simp
  moreover from a have "variations env \<noteq> []" by auto
  ultimately show "getDefaultValue flag E = Inr (var_value v)"
    using a assms by (auto simp: getDefaultValue_def Let_def)
next
  assume "flag_type flag \<noteq> BOOLEAN \<and> variations env = []"
  with assms show "getDefaultValue flag E =
      Inr (if env_value env \<noteq> Undefined then env_value env else Null)"
    by (simp add: getDefaultValue_def)
qed

theorem default_value_resolver_witness:
  "getDefaultValue (variation_flag None) (ascii ''production'') = Inr (Num 1) \<and>
   getDefaultValue (variation_flag (Some (ascii ''B''))) (ascii ''production'') = Inr (Num 2) \<and>
   getDefaultValue priority_flag (ascii ''production'') = Inr Null \<and>
   getDefaultValue (priority_flag\<lparr>flag_type := BOOLEAN\<rparr>) (ascii ''production'') = Inr (Bool False)"
proof -
  have e1: "environments (variation_flag None) (ascii ''production'') = Some variation_env"
    by (simp add: variation_flag_def variation_env_def)
  have e2: "environments (variation_flag (Some (ascii ''B''))) (ascii ''production'')
            = Some (variation_env\<lparr>defaultVariation := Some (ascii ''B'')\<rparr>)"
    by (simp add: variation_flag_def)
  have e3: "environments priority_flag (ascii ''production'') = Some priority_env"
    by (simp add: priority_flag_def)
  have e4: "environments (priority_flag\<lparr>flag_type := BOOLEAN\<rparr>) (ascii ''production'') = Some priority_env"
    by (simp add: priority_flag_def)
  have d: "distinct (map var_key (variations variation_env))"
    by (simp add: variation_env_def ascii_def)
  from default_value_resolver [OF e1]
  have r1: "getDefaultValue (variation_flag None) (ascii ''production'') = Inr (Num 1)"
    by (simp add: variation_flag_def variation_env_def)
  from default_value_resolver [OF e2, of "ascii ''B''" "\<lparr>var_key = ascii ''B'', var_value = Num 2\<rparr>"] d
  have r2: "getDefaultValue (variation_flag (Some (ascii ''B''))) (ascii ''production'') = Inr (Num 2)"
    by (simp add: variation_flag_def variation_env_def ascii_def)
  from default_value_resolver [OF e3]
  have r3: "getDefaultValue priority_flag (ascii ''production'') = Inr Null"
    by (simp add: priority_flag_def priority_env_def)
  from default_value_resolver [OF e4]
  have r4: "getDefaultValue (priority_flag\<lparr>flag_type := BOOLEAN\<rparr>) (ascii ''production'') = Inr (Bool False)"
    by (simp add: priority_flag_def priority_env_def)
  from r1 r2 r3 r4 show ?thesis by simp
qed

lemma find_no_key: "k \<notin> f ` set xs \<Longrightarrow> find (\<lambda>x. f x = k) xs = None"
  by (induction xs) auto

text \<open>
  C10. For a flag that is not BOOLEAN, with variations, whose default variation names a
  key that no variation has, the default value is \<^verbatim>\<open>null\<close>: the resolver returns and
  raises no error.
\<close>

theorem dangling_default_variation_gives_null:
  assumes "environments flag E = Some env"
    and "flag_type flag \<noteq> BOOLEAN"
    and "variations env \<noteq> []"
    and "defaultVariation env = Some k" and "k \<noteq> []"
    and "k \<notin> var_key ` set (variations env)"
  shows "getDefaultValue flag E = Inr Null"
  using assms by (simp add: getDefaultValue_def Let_def find_no_key)

theorem dangling_default_variation_gives_null_witness:
  "getDefaultValue (variation_flag (Some (ascii ''C''))) (ascii ''production'') = Inr Null \<and>
   (\<forall>rt. evaluate rt 0 (variation_flag (Some (ascii ''C''))) (ascii ''production'') [] = Inr Null)"
proof -
  let ?env = "variation_env\<lparr>defaultVariation := Some (ascii ''C'')\<rparr>"
  have e: "environments (variation_flag (Some (ascii ''C''))) (ascii ''production'') = Some ?env"
    by (simp add: variation_flag_def)
  have t: "flag_type (variation_flag (Some (ascii ''C''))) \<noteq> BOOLEAN"
    by (simp add: variation_flag_def)
  have v: "variations ?env \<noteq> []" by (simp add: variation_env_def)
  have d: "defaultVariation ?env = Some (ascii ''C'')" by simp
  have n: "ascii ''C'' \<noteq> []" by (simp add: ascii_def)
  have k: "ascii ''C'' \<notin> var_key ` set (variations ?env)"
    by (simp add: variation_env_def ascii_def)
  have r: "getDefaultValue (variation_flag (Some (ascii ''C''))) (ascii ''production'') = Inr Null"
    using dangling_default_variation_gives_null [OF e t v d n k] .
  have "\<not> enabled ?env" by (simp add: variation_env_def)
  with e have "evaluate rt 0 (variation_flag (Some (ascii ''C''))) (ascii ''production'') []
      = getDefaultValue (variation_flag (Some (ascii ''C''))) (ascii ''production'')" for rt
    by (simp add: evaluate_def)
  with r show ?thesis by simp
qed

section \<open>Recorded metrics do not influence evaluation\<close>

lemma evaluateRule_metrics:
  "evaluateRule rt now (flag\<lparr>metrics_evaluations := n, metrics_lastEvaluated := t\<rparr>) rule C
   = evaluateRule rt now flag rule C"
  by (simp add: evaluateRule_def split: rule_config.splits)

lemma first_match_metrics:
  "first_match rt now (flag\<lparr>metrics_evaluations := n, metrics_lastEvaluated := t\<rparr>) C rs
   = first_match rt now flag C rs"
  by (induction rs) (simp_all add: evaluateRule_metrics split: sum.splits)

lemma getDefaultValue_metrics:
  "getDefaultValue (flag\<lparr>metrics_evaluations := n, metrics_lastEvaluated := t\<rparr>) E
   = getDefaultValue flag E"
  by (simp add: getDefaultValue_def split: option.splits)

text \<open>
  C9. With the runtime and the clock reading fixed, the result of \<^verbatim>\<open>evaluate\<close> is a
  function of the flag's key, type and environments, the environment name and the
  context: it is the same for two snapshots of the flag that differ in the recorded
  metrics only, in particular before and after an evaluation has been recorded.
\<close>

theorem evaluate_ignores_metrics:
  "evaluate rt now (flag\<lparr>metrics_evaluations := n, metrics_lastEvaluated := t\<rparr>) E C
     = evaluate rt now flag E C \<and>
   evaluate rt now (recordEvaluation t' flag) E C = evaluate rt now flag E C"
proof -
  have "evaluate rt now (flag\<lparr>metrics_evaluations := n, metrics_lastEvaluated := t\<rparr>) E C
     = evaluate rt now flag E C" for n t
    by (simp add: evaluate_def first_match_metrics getDefaultValue_metrics
        split: option.splits sum.splits)
  then show ?thesis by (simp add: recordEvaluation_def)
qed

section \<open>Bulk evaluation\<close>

text \<open>
  With distinct flag keys (the unique index on project and key), a flag whose evaluation
  fails leaves no entry, a flag that evaluates leaves its value under its key unless the
  key is \<^verbatim>\<open>__proto__\<close>, and the result has no other keys.
\<close>

lemma loop_other_key:
  "k \<notin> flag_key ` set flags \<Longrightarrow>
   evaluateAllFlags_loop rt now E C flags results k = results k"
  by (induction flags arbitrary: results) (auto simp: js_assign_def split: sum.splits)

lemma loop_success:
  assumes "distinct (map flag_key flags)" and "f \<in> set flags"
    and "evaluate rt now f E C = Inr v" and "flag_key f \<noteq> ascii ''__proto__''"
  shows "evaluateAllFlags_loop rt now E C flags results (flag_key f) = Some v"
  using assms(1,2)
proof (induction flags arbitrary: results)
  case Nil
  then show ?case by simp
next
  case (Cons g flags)
  show ?case
  proof (cases "g = f")
    case True
    with Cons.prems have "flag_key f \<notin> flag_key ` set flags" by auto
    then show ?thesis
      using True assms(3,4) by (simp add: loop_other_key js_assign_def)
  next
    case False
    with Cons.prems have f: "f \<in> set flags" and d: "distinct (map flag_key flags)"
      by auto
    show ?thesis
      by (cases "evaluate rt now g E C") (simp_all add: Cons.IH [OF d f])
  qed
qed

lemma loop_failure:
  assumes "distinct (map flag_key flags)" and "f \<in> set flags"
    and "evaluate rt now f E C = Inl e"
  shows "evaluateAllFlags_loop rt now E C flags results (flag_key f) = results (flag_key f)"
  using assms(1,2)
proof (induction flags arbitrary: results)
  case Nil
  then show ?case by simp
next
  case (Cons g flags)
  show ?case
  proof (cases "g = f")
    case True
    with Cons.prems have "flag_key f \<notin> flag_key ` set flags" by auto
    then show ?thesis
      using True assms(3) by (simp add: loop_other_key)
  next
    case False
    with Cons.prems have f: "f \<in> set flags" and d: "distinct (map flag_key flags)"
      and k: "flag_key g \<noteq> flag_key f"
      by auto
    show ?thesis
      using k by (cases "evaluate rt now g E C") (simp_all add: Cons.IH [OF d f] js_assign_def)
  qed
qed

lemma evaluateAllFlags_isolation:
  assumes "distinct (map flag_key flags)" and "f \<in> set flags"
  shows "(case evaluate rt now f E C of
            Inl e \<Rightarrow> evaluateAllFlags rt now flags E C (flag_key f) = None
          | Inr v \<Rightarrow> flag_key f \<noteq> ascii ''__proto__'' \<longrightarrow>
                     evaluateAllFlags rt now flags E C (flag_key f) = Some v) \<and>
         dom (evaluateAllFlags rt now flags E C) \<subseteq> flag_key ` set flags"
proof -
  have "k \<in> flag_key ` set flags" if "evaluateAllFlags rt now flags E C k \<noteq> None" for k
  proof (rule ccontr)
    assume "k \<notin> flag_key ` set flags"
    then have "evaluateAllFlags rt now flags E C k = None"
      by (simp add: evaluateAllFlags_def loop_other_key)
    with that show False by simp
  qed
  then have "dom (evaluateAllFlags rt now flags E C) \<subseteq> flag_key ` set flags"
    by (auto simp: dom_def)
  then show ?thesis
    using assms
    by (auto simp: evaluateAllFlags_def loop_success loop_failure split: sum.splits)
qed

text \<open>
  C8. The claim reads: every flag that evaluates successfully appears in the result
  mapping with its value. A flag whose key is \<^verbatim>\<open>__proto__\<close> evaluates successfully and
  is missing from the result.
\<close>

theorem proto_flag_missing_from_bulk_result:
  "(\<forall>rt. evaluate rt 0 proto_flag (ascii ''production'') [] = Inr (Bool True)) \<and>
   (\<forall>rt. evaluateAllFlags rt 0 [proto_flag] (ascii ''production'') []
     (flag_key proto_flag) = None)"
  by (simp add: evaluateAllFlags_def evaluate_def getDefaultValue_def proto_flag_def js_assign_def)

text \<open>
  The specification's scenario, with a third flag whose rule throws for the context: the
  result holds the value of the one flag that evaluates.
\<close>

lemma bulk_isolation_example:
  "evaluateAllFlags rt 0
     [priority_flag, variation_flag None\<lparr>environments := Map.empty\<rparr>,
      rollout_flag 50\<lparr>flag_key := ascii ''rollout''\<rparr>]
     (ascii ''production'')
     [(ascii ''plan'', Str (ascii ''pro'')), (ascii ''userId'', Obj 1 [(ascii ''toString'', Num 0)])]
   = [ascii ''new-checkout'' \<mapsto> Bool True]"
  by (simp add: evaluateAllFlags_def evaluate_def getDefaultValue_def priority_flag_def
      priority_env_def variation_flag_def variation_env_def rollout_flag_def js_assign_def
      js_sort_def by_priority_def evaluateRule_def js_plus_def js_get_def ascii_def)

end
